theory Spec2Isabelle
  imports Complex_Main "HOL-Library.Log_Nat" "HOL-Library.Multiset"
begin

section \<open>Values of a Series: binary64 floating-point numbers\<close>

text \<open>
  The class \<^verbatim>\<open>TimeSeries\<close> of \<^verbatim>\<open>src/time_series.py\<close> wraps a pandas Series of
  dtype float64.  A float64 is a finite rational, an infinity or not-a-number.  The two
  signed zeros compare equal and are not told apart.  \<open>Fin q\<close> stands for a float64 only
  when \<open>q\<close> is representable, that is \<open>round64 q = Fin q\<close>.
\<close>

datatype float64 = Fin rat | PInf | NInf | NaN

text \<open>
  \<open>ilog2 q\<close> is the integer part of the binary logarithm of a positive rational:
  \<open>2 powi ilog2 q \<le> q < 2 powi (ilog2 q + 1)\<close>.
\<close>

definition ilog2 :: "rat \<Rightarrow> int" where
  "ilog2 q = (if 1 \<le> q then bitlen \<lfloor>q\<rfloor> - 1 else - bitlen (\<lceil>1 / q\<rceil> - 1))"

definition round_half_even :: "rat \<Rightarrow> int" where
  "round_half_even x =
     (let n = \<lfloor>x\<rfloor>; d = x - of_int n
      in if d < 1 / 2 then n
         else if 1 / 2 < d then n + 1
         else if even n then n else n + 1)"

text \<open>
  Rounding to the nearest float64, ties to even: 53 significant bits, the least exponent
  \<open>-1022\<close> (below it the numbers are subnormal, spaced \<open>2 powi -1074\<close> apart), and
  overflow to an infinity when the rounded magnitude reaches \<open>2 ^ 1024\<close>, that is
  when the exponent exceeds \<open>1023\<close> or the significand rounds up to \<open>2 ^ 53\<close> there.
\<close>

definition round64 :: "rat \<Rightarrow> float64" where
  "round64 q =
     (if q = 0 then Fin 0
      else
        let e = max (ilog2 \<bar>q\<bar>) (- 1022);
            u = power_int 2 (e - 52);
            m = round_half_even (\<bar>q\<bar> / u)
        in if 1023 < e \<or> (e = 1023 \<and> 2 ^ 53 \<le> m) then (if 0 < q then PInf else NInf)
           else Fin (sgn q * (of_int m * u)))"

fun isNaN :: "float64 \<Rightarrow> bool" where
  "isNaN NaN = True"
| "isNaN _ = False"

text \<open>Python's \<^verbatim>\<open>x <= y\<close> on floats: false as soon as one side is not-a-number.\<close>

fun fle :: "float64 \<Rightarrow> float64 \<Rightarrow> bool" where
  "fle NaN _ = False"
| "fle _ NaN = False"
| "fle NInf _ = True"
| "fle _ PInf = True"
| "fle PInf _ = False"
| "fle _ NInf = False"
| "fle (Fin a) (Fin b) = (a \<le> b)"

fun fadd :: "float64 \<Rightarrow> float64 \<Rightarrow> float64" where
  "fadd NaN _ = NaN"
| "fadd _ NaN = NaN"
| "fadd PInf NInf = NaN"
| "fadd NInf PInf = NaN"
| "fadd PInf _ = PInf"
| "fadd _ PInf = PInf"
| "fadd NInf _ = NInf"
| "fadd _ NInf = NInf"
| "fadd (Fin a) (Fin b) = round64 (a + b)"

fun fneg :: "float64 \<Rightarrow> float64" where
  "fneg NaN = NaN"
| "fneg PInf = NInf"
| "fneg NInf = PInf"
| "fneg (Fin a) = Fin (- a)"

definition fsub :: "float64 \<Rightarrow> float64 \<Rightarrow> float64" where
  "fsub x y = fadd x (fneg y)"

text \<open>\<^verbatim>\<open>x ** 2\<close>, which numpy computes as \<^verbatim>\<open>x * x\<close>.\<close>

fun fsquare :: "float64 \<Rightarrow> float64" where
  "fsquare NaN = NaN"
| "fsquare PInf = PInf"
| "fsquare NInf = PInf"
| "fsquare (Fin a) = round64 (a * a)"

text \<open>Division by a count, which is a positive whole number.\<close>

fun fdivn :: "float64 \<Rightarrow> nat \<Rightarrow> float64" where
  "fdivn NaN n = NaN"
| "fdivn PInf n = PInf"
| "fdivn NInf n = NInf"
| "fdivn (Fin a) n = round64 (a / of_nat n)"

text \<open>
  The square root, correctly rounded.  For \<open>0 < a\<close> the root lies in the binade of
  exponent \<open>e = ilog2 a div 2\<close>; with \<open>u\<close> the spacing there, \<open>k\<close> is the integer part of
  \<open>sqrt a / u\<close>, found by bisection between \<open>2 ^ 52\<close> and \<open>2 ^ 53\<close>.
\<close>

function isqrt_between :: "int \<Rightarrow> int \<Rightarrow> int \<Rightarrow> int" where
  "isqrt_between n lo hi =
     (if hi \<le> lo + 1 then lo
      else let mid = (lo + hi) div 2
           in if mid * mid \<le> n then isqrt_between n mid hi else isqrt_between n lo mid)"
  by pat_completeness auto
termination
  by (relation "measure (\<lambda>(n, lo, hi). nat (hi - lo))") auto

fun fsqrt :: "float64 \<Rightarrow> float64" where
  "fsqrt NaN = NaN"
| "fsqrt PInf = PInf"
| "fsqrt NInf = NaN"
| "fsqrt (Fin a) =
     (if a < 0 then NaN
      else if a = 0 then Fin 0
      else
        let e = ilog2 a div 2;
            u = power_int 2 (e - 52);
            r = a / (u * u);
            k = isqrt_between \<lfloor>r\<rfloor> (2 ^ 52) (2 ^ 53);
            h = (of_int k + 1 / 2) * (of_int k + 1 / 2);
            m = (if r < h then k else if h < r then k + 1 else if even k then k else k + 1)
        in Fin (of_int m * u))"

section \<open>The pandas Series operations that the class calls\<close>

text \<open>
  pandas and numpy are libraries, not part of the repository.  The definitions of this
  section state what the operations that \<^verbatim>\<open>TimeSeries\<close> calls on its Series do, for a Series
  of dtype float64 whose index labels are timestamps: the reductions \<^verbatim>\<open>mean\<close>,
  \<^verbatim>\<open>median\<close>, \<^verbatim>\<open>std\<close>, \<^verbatim>\<open>min\<close> and \<^verbatim>\<open>max\<close>, \<^verbatim>\<open>len\<close>, and item assignment.  The
  reductions are those of pandas' own \<^verbatim>\<open>nanops\<close>, which sum with numpy; the optional
  accelerator \<^verbatim>\<open>bottleneck\<close> is not installed.

  A \<^verbatim>\<open>pd.Timestamp\<close> is a count of nanoseconds since the epoch.  A Series is its list of
  (index label, value) pairs in positional order; pandas neither sorts the index nor
  keeps its labels unique.  The values live in a numpy array, which may be read-only
  (\<^verbatim>\<open>flags.writeable\<close> false).
\<close>

datatype timestamp = Timestamp (nanos: int)

type_synonym entries = "(timestamp \<times> float64) list"

record series =
  items :: entries
  writeable :: bool

datatype error = TypeError | AttributeError | ValueError

definition series_values :: "series \<Rightarrow> float64 list" where
  "series_values xs = map snd (items xs)"

text \<open>
  The reductions run with \<^verbatim>\<open>skipna=True\<close>.  Minimum, maximum and median leave the
  not-a-number entries out; the sums of mean and standard deviation run over the whole
  array with zero in their place, and divide by the number of the other entries.
\<close>

definition dropna :: "float64 list \<Rightarrow> float64 list" where
  "dropna vs = filter (\<lambda>v. \<not> isNaN v) vs"

definition fillna :: "float64 list \<Rightarrow> float64 list" where
  "fillna vs = map (\<lambda>v. if isNaN v then Fin 0 else v) vs"

text \<open>
  numpy's pairwise summation of a contiguous array.  Fewer than eight elements are added
  from left to right, starting at zero.  Up to 128 elements are added into eight
  accumulators, element \<open>i\<close> into accumulator \<open>i mod 8\<close>; the accumulators are then added
  in pairs, and the elements left over past the last full group of eight are added to
  that sum one by one.  A longer array is split near its middle, at a multiple of eight,
  and the sums of the two parts are added.
\<close>

function accumulate8 :: "float64 list \<Rightarrow> float64 list \<Rightarrow> float64 list" where
  "accumulate8 r xs =
     (if length xs < 8 then r else accumulate8 (map2 fadd r (take 8 xs)) (drop 8 xs))"
  by pat_completeness auto
termination
  by (relation "measure (\<lambda>(r, xs). length xs)") auto

definition combine8 :: "float64 list \<Rightarrow> float64" where
  "combine8 r =
     fadd (fadd (fadd (r ! 0) (r ! 1)) (fadd (r ! 2) (r ! 3)))
          (fadd (fadd (r ! 4) (r ! 5)) (fadd (r ! 6) (r ! 7)))"

function pairwise_sum :: "float64 list \<Rightarrow> float64" where
  "pairwise_sum a =
     (if length a < 8 then foldl fadd (Fin 0) a
      else if length a \<le> 128 then
        foldl fadd
          (combine8 (accumulate8 (take 8 a) (drop 8 (take (length a - length a mod 8) a))))
          (drop (length a - length a mod 8) a)
      else
        fadd (pairwise_sum (take (length a div 2 - length a div 2 mod 8) a))
             (pairwise_sum (drop (length a div 2 - length a div 2 mod 8) a)))"
  by pat_completeness auto
termination
  by (relation "measure length") auto

text \<open>
  \<^verbatim>\<open>ndarray.sum\<close>: the result starts as the identity zero, and the pairwise sum of the
  array is added to it.
\<close>

definition fsum :: "float64 list \<Rightarrow> float64" where
  "fsum vs = fadd (Fin 0) (pairwise_sum vs)"

definition series_mean :: "series \<Rightarrow> float64" where
  "series_mean xs =
     (let vs = series_values xs; n = length (dropna vs)
      in if n = 0 then NaN else fdivn (fsum (fillna vs)) n)"

definition fmin :: "float64 \<Rightarrow> float64 \<Rightarrow> float64" where
  "fmin a b = (if fle b a then b else a)"

definition fmax :: "float64 \<Rightarrow> float64 \<Rightarrow> float64" where
  "fmax a b = (if fle a b then b else a)"

definition series_min :: "series \<Rightarrow> float64" where
  "series_min xs =
     (case dropna (series_values xs) of [] \<Rightarrow> NaN | v # vs \<Rightarrow> foldl fmin v vs)"

definition series_max :: "series \<Rightarrow> float64" where
  "series_max xs =
     (case dropna (series_values xs) of [] \<Rightarrow> NaN | v # vs \<Rightarrow> foldl fmax v vs)"

fun finsert :: "float64 \<Rightarrow> float64 list \<Rightarrow> float64 list" where
  "finsert x [] = [x]"
| "finsert x (y # ys) = (if fle x y then x # y # ys else y # finsert x ys)"

definition fsort :: "float64 list \<Rightarrow> float64 list" where
  "fsort vs = foldr finsert vs []"

text \<open>
  The median of the sorted numbers: the middle one, or the mean of the two middle ones,
  which numpy computes as their sum divided by two.
\<close>

definition series_median :: "series \<Rightarrow> float64" where
  "series_median xs =
     (let vs = fsort (dropna (series_values xs)); n = length vs
      in if n = 0 then NaN
         else if odd n then vs ! (n div 2)
         else fdivn (fsum [vs ! (n div 2 - 1), vs ! (n div 2)]) 2)"

text \<open>
  The standard deviation with \<^verbatim>\<open>ddof=1\<close>, the default of \<^verbatim>\<open>Series.std\<close>: the squared
  deviations from the mean, zero at the not-a-number entries, are summed and divided by
  \<open>n - 1\<close>; with fewer than two numbers the result is not-a-number.
\<close>

definition series_var :: "series \<Rightarrow> float64" where
  "series_var xs =
     (let vs = series_values xs; n = length (dropna vs)
      in if n \<le> 1 then NaN
         else
           let avg = fdivn (fsum (fillna vs)) n;
               sqr = map (\<lambda>v. if isNaN v then Fin 0 else fsquare (fsub avg v)) vs
           in fdivn (fsum sqr) (n - 1))"

definition series_std :: "series \<Rightarrow> float64" where
  "series_std xs = fsqrt (series_var xs)"

text \<open>
  \<^verbatim>\<open>obj[t] = v\<close> on a list of pairs: every entry labelled \<open>t\<close> takes the value \<open>v\<close>; when
  there is none, the pair is appended at the end, whatever the order of the labels.
\<close>

definition entries_setitem :: "entries \<Rightarrow> timestamp \<Rightarrow> float64 \<Rightarrow> entries" where
  "entries_setitem xs t v =
     (if t \<in> fst ` set xs then map (\<lambda>(k, x). if k = t then (k, v) else (k, x)) xs
      else xs @ [(t, v)])"

text \<open>
  \<^verbatim>\<open>ser[t] = v\<close> on a Series.  A label that is present is written into the array in place,
  which numpy refuses with \<^verbatim>\<open>ValueError\<close> when the array is read-only.  A label that is
  new makes pandas build a fresh, writable array holding the old values and the new one.
\<close>

definition series_setitem :: "series \<Rightarrow> timestamp \<Rightarrow> float64 \<Rightarrow> error + series" where
  "series_setitem xs t v =
     (if t \<in> fst ` set (items xs) then
        (if writeable xs then Inr (xs\<lparr>items := entries_setitem (items xs) t v\<rparr>)
         else Inl ValueError)
      else Inr \<lparr>items = entries_setitem (items xs) t v, writeable = True\<rparr>)"

section \<open>Python objects and the heap\<close>

text \<open>
  Python passes references.  The heap maps an address to the object that lives there;
  besides Series it holds the objects a caller may pass instead: a plain list of
  numbers, a dict from timestamps to numbers, and \<^verbatim>\<open>None\<close>.
\<close>

datatype pyobj =
    Series series
  | PyList "float64 list"
  | PyDict entries
  | PyNone

type_synonym addr = nat

type_synonym heap = "addr \<Rightarrow> pyobj"

text \<open>\<^verbatim>\<open>isinstance(data, pd.Series)\<close>\<close>

fun isinstance_Series :: "pyobj \<Rightarrow> bool" where
  "isinstance_Series (Series xs) = True"
| "isinstance_Series _ = False"

text \<open>
  \<^verbatim>\<open>obj[t] = v\<close> on each kind of object: a Series as above, a dict stores the pair, a list
  refuses a key that is not an integer, and \<^verbatim>\<open>None\<close> supports no item assignment.
\<close>

fun setitem :: "pyobj \<Rightarrow> timestamp \<Rightarrow> float64 \<Rightarrow> error + pyobj" where
  "setitem (Series xs) t v =
     (case series_setitem xs t v of Inl e \<Rightarrow> Inl e | Inr ys \<Rightarrow> Inr (Series ys))"
| "setitem (PyDict kvs) t v = Inr (PyDict (entries_setitem kvs t v))"
| "setitem (PyList vs) t v = Inl TypeError"
| "setitem PyNone t v = Inl TypeError"

section \<open>The class TimeSeries\<close>

record TimeSeries =
  priv_data :: addr
  priv_name :: string

text \<open>
  A method runs on the heap and the object, and returns its result or the exception it
  raises, together with the heap and the object as it leaves them.
\<close>

type_synonym state = "heap \<times> TimeSeries"

record summary =
  s_mean :: float64
  s_median :: float64
  s_std :: float64
  s_min :: float64
  s_max :: float64
  s_length :: nat

definition validate_input_data :: "heap \<Rightarrow> addr \<Rightarrow> error + unit" where
  "validate_input_data h d =
     (if \<not> isinstance_Series (h d) then Inl TypeError else Inr ())"

definition TimeSeries_init :: "heap \<Rightarrow> addr \<Rightarrow> string \<Rightarrow> error + TimeSeries" where
  "TimeSeries_init h d nm =
     (case validate_input_data h d of
        Inl e \<Rightarrow> Inl e
      | Inr _ \<Rightarrow> Inr \<lparr>priv_data = d, priv_name = nm\<rparr>)"

definition data_getter :: "TimeSeries \<Rightarrow> addr" where
  "data_getter self = priv_data self"

definition data_setter :: "addr \<Rightarrow> state \<Rightarrow> (error + unit) \<times> state" where
  "data_setter new_data s =
     (case s of (h, self) \<Rightarrow>
        (case validate_input_data h new_data of
           Inl e \<Rightarrow> (Inl e, s)
         | Inr _ \<Rightarrow> (Inr (), (h, self\<lparr>priv_data := new_data\<rparr>))))"

definition name_getter :: "TimeSeries \<Rightarrow> string" where
  "name_getter self = priv_name self"


text \<open>
  \<^verbatim>\<open>get_summary\<close> calls \<^verbatim>\<open>mean\<close> first; an object that is not a Series has no such
  attribute.
\<close>

definition summarise :: "series \<Rightarrow> summary" where
  "summarise xs =
     \<lparr>s_mean = series_mean xs, s_median = series_median xs, s_std = series_std xs,
      s_min = series_min xs, s_max = series_max xs, s_length = length (items xs)\<rparr>"

definition get_summary :: "state \<Rightarrow> (error + summary) \<times> state" where
  "get_summary s =
     (case s of (h, self) \<Rightarrow>
        (case h (priv_data self) of
           Series xs \<Rightarrow> (Inr (summarise xs), s)
         | _ \<Rightarrow> (Inl AttributeError, s)))"

definition add_value :: "timestamp \<Rightarrow> float64 \<Rightarrow> state \<Rightarrow> (error + unit) \<times> state" where
  "add_value t v s =
     (case s of (h, self) \<Rightarrow>
        (case setitem (h (priv_data self)) t v of
           Inl e \<Rightarrow> (Inl e, s)
         | Inr ob \<Rightarrow> (Inr (), (h(priv_data self := ob), self))))"

text \<open>The default of the constructor's parameter \<^verbatim>\<open>name\<close>.\<close>

definition default_name :: string where
  "default_name = ''Unnamed Series''"

section \<open>The data model of the specification, and reachable states\<close>





section \<open>The scenarios of the specification\<close>


definition ts_2023_01_01 :: timestamp where
  "ts_2023_01_01 = Timestamp 1672531200000000000"

definition ts_2023_01_02 :: timestamp where
  "ts_2023_01_02 = Timestamp 1672617600000000000"

definition ts_2023_01_03 :: timestamp where
  "ts_2023_01_03 = Timestamp 1672704000000000000"


definition scenario_series :: series where
  "scenario_series =
     \<lparr>items = [(ts_2023_01_01, Fin 1), (ts_2023_01_02, Fin 3), (ts_2023_01_03, Fin 2)],
      writeable = True\<rparr>"

text \<open>The same Series over a read-only array, and an empty Series.\<close>

definition readonly_series :: series where
  "readonly_series = scenario_series\<lparr>writeable := False\<rparr>"

definition empty_series :: series where
  "empty_series = \<lparr>items = [], writeable = True\<rparr>"

text \<open>A heap whose address \<open>0\<close> holds the given object; every other address holds \<^verbatim>\<open>None\<close>.\<close>

definition heap_with :: "pyobj \<Rightarrow> heap" where
  "heap_with ob = (\<lambda>a. PyNone)(0 := ob)"

definition scenario_self :: TimeSeries where
  "scenario_self = \<lparr>priv_data = 0, priv_name = ''S''\<rparr>"

text \<open>The float64 nearest to one tenth, which is what the literal \<^verbatim>\<open>0.1\<close> denotes.\<close>

definition tenth :: rat where
  "tenth = 3602879701896397 / 36028797018963968"

definition tenths_series :: series where
  "tenths_series =
     \<lparr>items = [(ts_2023_01_01, Fin tenth), (ts_2023_01_02, Fin tenth),
        (ts_2023_01_03, Fin tenth)],
      writeable = True\<rparr>"




section \<open>Quantities of the rounding error analysis\<close>











declare pairwise_sum.simps [simp del]

declare accumulate8.simps [simp del]

section \<open>Order facts about float64, minimum and maximum\<close>











section \<open>The rounding goes to a nearest multiple of the spacing\<close>


lemma round_half_even_of_int: "round_half_even (of_int n) = n"
  by (simp add: round_half_even_def)



section \<open>Evaluating the rounding on numerals\<close>

lemma bitlen_One: "bitlen 1 = 1"
  by (subst compute_bitlen) simp

lemma bitlen_Bit0: "bitlen (numeral (Num.Bit0 n)) = bitlen (numeral n) + 1"
  by (subst compute_bitlen) simp

lemma bitlen_Bit1: "bitlen (numeral (Num.Bit1 n)) = bitlen (numeral n) + 1"
  by (subst compute_bitlen) simp

lemma floor_rat_numeral_div: "\<lfloor>(numeral a :: rat) / numeral b\<rfloor> = numeral a div numeral b"
  by (metis floor_divide_of_int_eq of_int_numeral)

lemma floor_rat_one_div: "\<lfloor>(1 :: rat) / numeral b\<rfloor> = 1 div numeral b"
  by (metis floor_divide_of_int_eq of_int_numeral of_int_1)

lemma ceiling_rat_numeral_div:
  "\<lceil>(numeral a :: rat) / numeral b\<rceil> = - ((- numeral a) div numeral b)"
  unfolding ceiling_def
  by (metis floor_divide_of_int_eq of_int_numeral of_int_minus minus_divide_left)

lemmas round64_eval = round64_def ilog2_def round_half_even_def Let_def
  bitlen_One bitlen_Bit0 bitlen_Bit1
  floor_rat_numeral_div floor_rat_one_div ceiling_rat_numeral_div

lemmas series_eval = series_values_def dropna_def fillna_def fsum_def fmin_def fmax_def fsort_def
  fsub_def pairwise_sum.simps

section \<open>The exact mean lies between the bounds\<close>





section \<open>The error of a rounded sum\<close>














section \<open>The pairwise sum is a rounded sum of its elements\<close>














section \<open>The slack in closed form\<close>






section \<open>The mean between minimum and maximum, up to rounding\<close>










section \<open>The pairwise sum on ten elements\<close>

text \<open>
  Ten values \<^verbatim>\<open>0.1\<close> go through the eight accumulators: their sum is exactly \<open>1\<close>, where
  adding them from left to right gives \<open>0.9999999999999999\<close>.
\<close>

lemma pairwise_sum_ten:
  "pairwise_sum [x0, x1, x2, x3, x4, x5, x6, x7, x8, x9]
     = fadd (fadd (combine8 [x0, x1, x2, x3, x4, x5, x6, x7]) x8) x9"
  by (simp add: pairwise_sum.simps accumulate8.simps)

lemma combine8_eight:
  "combine8 [x0, x1, x2, x3, x4, x5, x6, x7]
     = fadd (fadd (fadd x0 x1) (fadd x2 x3)) (fadd (fadd x4 x5) (fadd x6 x7))"
  by (simp add: combine8_def)

lemma fifth: "fadd (Fin tenth) (Fin tenth) = Fin (2 * tenth)"
  by (simp add: tenth_def round64_eval)

lemma two_fifths: "fadd (Fin (2 * tenth)) (Fin (2 * tenth)) = Fin (4 * tenth)"
  by (simp add: tenth_def round64_eval)

lemma four_fifths: "fadd (Fin (4 * tenth)) (Fin (4 * tenth)) = Fin (8 * tenth)"
  by (simp add: tenth_def round64_eval)

lemma nine_tenths: "fadd (Fin (8 * tenth)) (Fin tenth) = Fin (8106479329266893 / 9007199254740992)"
  by (simp add: tenth_def round64_eval)

lemma ten_tenths: "fadd (Fin (8106479329266893 / 9007199254740992)) (Fin tenth) = Fin 1"
  by (simp add: tenth_def round64_eval)

lemma ten_tenths_sum:
  "pairwise_sum [Fin tenth, Fin tenth, Fin tenth, Fin tenth, Fin tenth, Fin tenth, Fin tenth,
     Fin tenth, Fin tenth, Fin tenth] = Fin 1"
  by (simp only: pairwise_sum_ten combine8_eight fifth two_fifths four_fifths nine_tenths
      ten_tenths)

section \<open>Construction and the accessors\<close>

text \<open>
  Claim C1.  Constructing a TimeSeries from an object that is not a Series (a plain list of
  numbers, a dict) raises TypeError and yields no object; constructing it from a Series,
  an empty one included, succeeds and yields the object holding that Series and the name.
\<close>

theorem init_validates_type:
  "(isinstance_Series (h d) \<longrightarrow>
      TimeSeries_init h d nm = Inr \<lparr>priv_data = d, priv_name = nm\<rparr>) \<and>
   (\<not> isinstance_Series (h d) \<longrightarrow> TimeSeries_init h d nm = Inl TypeError)"
  by (simp add: TimeSeries_init_def validate_input_data_def)

theorem init_validates_type_witness:
  "isinstance_Series (heap_with (Series empty_series) 0) \<and>
   TimeSeries_init (heap_with (Series empty_series)) 0 default_name
     = Inr \<lparr>priv_data = 0, priv_name = default_name\<rparr> \<and>
   \<not> isinstance_Series (heap_with (PyList [Fin 1, Fin 2]) 0) \<and>
   TimeSeries_init (heap_with (PyList [Fin 1, Fin 2])) 0 default_name = Inl TypeError \<and>
   \<not> isinstance_Series (heap_with (PyDict [(ts_2023_01_01, Fin 1)]) 0) \<and>
   TimeSeries_init (heap_with (PyDict [(ts_2023_01_01, Fin 1)])) 0 default_name = Inl TypeError"
  using init_validates_type [of "heap_with (Series empty_series)" 0 default_name]
    init_validates_type [of "heap_with (PyList [Fin 1, Fin 2])" 0 default_name]
    init_validates_type [of "heap_with (PyDict [(ts_2023_01_01, Fin 1)])" 0 default_name]
  by (simp add: heap_with_def)

text \<open>
  Claim C2.  Assigning to \<^verbatim>\<open>data\<close> either replaces the stored reference by the new one, when
  the new object is a Series, or raises TypeError and leaves the heap and the object as
  they were; nothing in between happens.
\<close>

theorem data_setter_all_or_nothing:
  "(isinstance_Series (h d) \<longrightarrow>
      data_setter d (h, self) = (Inr (), (h, self\<lparr>priv_data := d\<rparr>))) \<and>
   (\<not> isinstance_Series (h d) \<longrightarrow> data_setter d (h, self) = (Inl TypeError, (h, self)))"
  by (simp add: data_setter_def validate_input_data_def)

theorem data_setter_all_or_nothing_witness:
  "isinstance_Series (((heap_with (Series scenario_series))(1 := Series empty_series)) 1) \<and>
   data_setter 1 ((heap_with (Series scenario_series))(1 := Series empty_series), scenario_self)
     = (Inr (), ((heap_with (Series scenario_series))(1 := Series empty_series),
          \<lparr>priv_data = 1, priv_name = ''S''\<rparr>)) \<and>
   \<not> isinstance_Series (((heap_with (Series scenario_series))(1 := PyList [Fin 1])) 1) \<and>
   data_setter 1 ((heap_with (Series scenario_series))(1 := PyList [Fin 1]), scenario_self)
     = (Inl TypeError, ((heap_with (Series scenario_series))(1 := PyList [Fin 1]), scenario_self))"
  using data_setter_all_or_nothing
      [of "(heap_with (Series scenario_series))(1 := Series empty_series)" 1 scenario_self]
    data_setter_all_or_nothing
      [of "(heap_with (Series scenario_series))(1 := PyList [Fin 1])" 1 scenario_self]
  by (simp add: scenario_self_def)

text \<open>
  Claim C3.  Constructing a TimeSeries from a Series and reading \<^verbatim>\<open>data\<close> gives a Series
  with the same (timestamp, value) pairs in the same order.
\<close>

theorem construct_then_read:
  "h S = Series xs \<Longrightarrow>
     \<exists>self. TimeSeries_init h S nm = Inr self \<and> h (data_getter self) = Series xs"
  by (simp add: TimeSeries_init_def validate_input_data_def data_getter_def)

theorem construct_then_read_witness:
  "heap_with (Series scenario_series) 0 = Series scenario_series \<and>
   (\<exists>self. TimeSeries_init (heap_with (Series scenario_series)) 0 ''S'' = Inr self \<and>
      heap_with (Series scenario_series) (data_getter self) = Series scenario_series)"
proof -
  have h: "heap_with (Series scenario_series) 0 = Series scenario_series"
    by (simp add: heap_with_def)
  show ?thesis
    using h construct_then_read [of "heap_with (Series scenario_series)" 0 scenario_series "''S''"]
    by simp
qed

text \<open>
  Claim C10.  The accessor \<^verbatim>\<open>data\<close> returns the reference that was passed to the constructor
  or to the setter, not a copy: whatever contents \<open>ys\<close> a caller gives the Series through
  that reference, the next \<^verbatim>\<open>get_summary\<close> is the summary of \<open>ys\<close>.
\<close>

theorem data_is_the_stored_object:
  "TimeSeries_init h S nm = Inr self \<or> data_setter S (h0, self0) = (Inr (), (h, self)) \<Longrightarrow>
     data_getter self = S \<and>
     get_summary (h(data_getter self := Series ys), self)
       = (Inr (summarise ys), (h(S := Series ys), self))"
  by (auto simp: TimeSeries_init_def data_setter_def validate_input_data_def data_getter_def
      get_summary_def split: if_splits)

theorem data_is_the_stored_object_witness:
  "TimeSeries_init (heap_with (Series empty_series)) 0 ''S'' = Inr scenario_self \<and>
   data_getter scenario_self = 0 \<and>
   get_summary ((heap_with (Series empty_series))(data_getter scenario_self := Series scenario_series),
       scenario_self)
     = (Inr (summarise scenario_series),
        ((heap_with (Series empty_series))(0 := Series scenario_series), scenario_self)) \<and>
   data_setter 1 ((heap_with (Series empty_series))(1 := Series empty_series), scenario_self)
     = (Inr (), ((heap_with (Series empty_series))(1 := Series empty_series), scenario_self\<lparr>priv_data := 1\<rparr>)) \<and>
   data_getter (scenario_self\<lparr>priv_data := 1\<rparr>) = 1 \<and>
   get_summary
       (((heap_with (Series empty_series))(1 := Series empty_series))
          (data_getter (scenario_self\<lparr>priv_data := 1\<rparr>) := Series scenario_series),
        scenario_self\<lparr>priv_data := 1\<rparr>)
     = (Inr (summarise scenario_series),
        (((heap_with (Series empty_series))(1 := Series empty_series))(1 := Series scenario_series),
         scenario_self\<lparr>priv_data := 1\<rparr>))"
proof -
  have i: "TimeSeries_init (heap_with (Series empty_series)) 0 ''S'' = Inr scenario_self"
    by (simp add: TimeSeries_init_def validate_input_data_def heap_with_def scenario_self_def)
  have s: "data_setter 1 ((heap_with (Series empty_series))(1 := Series empty_series), scenario_self)
     = (Inr (), ((heap_with (Series empty_series))(1 := Series empty_series), scenario_self\<lparr>priv_data := 1\<rparr>))"
    by (simp add: data_setter_def validate_input_data_def)
  have c: "data_getter scenario_self = 0 \<and>
     get_summary ((heap_with (Series empty_series))(data_getter scenario_self := Series scenario_series),
         scenario_self)
       = (Inr (summarise scenario_series),
          ((heap_with (Series empty_series))(0 := Series scenario_series), scenario_self))"
    using i data_is_the_stored_object [where h = "heap_with (Series empty_series)" and S = 0
        and nm = "''S''" and self = scenario_self and ys = scenario_series
        and ?h0.0 = "heap_with (Series empty_series)" and ?self0.0 = scenario_self]
    by blast
  have d: "data_getter (scenario_self\<lparr>priv_data := 1\<rparr>) = 1 \<and>
     get_summary
         (((heap_with (Series empty_series))(1 := Series empty_series))
            (data_getter (scenario_self\<lparr>priv_data := 1\<rparr>) := Series scenario_series),
          scenario_self\<lparr>priv_data := 1\<rparr>)
       = (Inr (summarise scenario_series),
          (((heap_with (Series empty_series))(1 := Series empty_series))(1 := Series scenario_series),
           scenario_self\<lparr>priv_data := 1\<rparr>))"
    using s data_is_the_stored_object [where h = "(heap_with (Series empty_series))(1 := Series empty_series)"
        and S = 1 and nm = "''S''" and self = "scenario_self\<lparr>priv_data := 1\<rparr>"
        and ys = scenario_series and ?h0.0 = "(heap_with (Series empty_series))(1 := Series empty_series)"
        and ?self0.0 = scenario_self]
    by blast
  show ?thesis using i s c d by blast
qed

section \<open>The summary\<close>

text \<open>
  Claim C8.  \<^verbatim>\<open>get_summary\<close> leaves the heap, and with it the stored Series, and the object,
  and with it the name, as they were, whether it returns or raises.
\<close>

theorem get_summary_read_only: "snd (get_summary s) = s"
  by (cases s) (simp add: get_summary_def split: pyobj.splits)

text \<open>
  Claim C9.  An empty Series is accepted by the constructor, and \<^verbatim>\<open>get_summary\<close> on it
  returns, without raising, a record whose length is zero and whose statistics are all
  not-a-number.
\<close>

theorem empty_series_summary:
  "h S = Series xs \<Longrightarrow> items xs = [] \<Longrightarrow>
     \<exists>self. TimeSeries_init h S nm = Inr self \<and>
       get_summary (h, self) =
         (Inr \<lparr>s_mean = NaN, s_median = NaN, s_std = NaN, s_min = NaN, s_max = NaN,
               s_length = 0\<rparr>, (h, self))"
  by (simp add: TimeSeries_init_def validate_input_data_def get_summary_def summarise_def
      series_mean_def series_median_def series_std_def series_var_def series_min_def
      series_max_def series_values_def dropna_def fsort_def)

theorem empty_series_summary_witness:
  "heap_with (Series empty_series) 0 = Series empty_series \<and>
   items empty_series = [] \<and>
   (\<exists>self. TimeSeries_init (heap_with (Series empty_series)) 0 default_name = Inr self \<and>
      get_summary (heap_with (Series empty_series), self) =
         (Inr \<lparr>s_mean = NaN, s_median = NaN, s_std = NaN, s_min = NaN, s_max = NaN,
               s_length = 0\<rparr>, (heap_with (Series empty_series), self)))"
proof -
  have h: "heap_with (Series empty_series) 0 = Series empty_series"
    by (simp add: heap_with_def)
  have e: "items empty_series = []"
    by (simp add: empty_series_def)
  show ?thesis
    using h e empty_series_summary [of "heap_with (Series empty_series)" 0 empty_series
        default_name]
    by simp
qed

section \<open>The summary of the scenario\<close>

lemma scenario_mean: "series_mean scenario_series = Fin 2"
  by (simp add: scenario_series_def series_mean_def series_eval round64_eval)

lemma scenario_median: "series_median scenario_series = Fin 2"
  by (simp add: scenario_series_def series_median_def series_eval)

lemma scenario_var: "series_var scenario_series = Fin 1"
  by (simp add: scenario_series_def series_var_def series_eval round64_eval)

lemma fsqrt_one: "fsqrt (Fin 1) = Fin 1"
  by (simp add: round64_eval)

lemma scenario_min: "series_min scenario_series = Fin 1"
  by (simp add: scenario_series_def series_min_def series_eval)

lemma scenario_max: "series_max scenario_series = Fin 3"
  by (simp add: scenario_series_def series_max_def series_eval)

text \<open>
  Claim C5.  For the Series \<open>[(2023-01-01, 1.0), (2023-01-02, 3.0), (2023-01-03, 2.0)]\<close>
  named \<open>S\<close>, \<^verbatim>\<open>get_summary\<close> returns mean 2.0, median 2.0, std 1.0, min 1.0, max 3.0 and
  length 3; the standard deviation is the root of the sum of the squared deviations
  \<open>1, 1, 0\<close> divided by \<open>n - 1\<close>.
\<close>

theorem scenario_summary:
  "TimeSeries_init (heap_with (Series scenario_series)) 0 ''S'' = Inr scenario_self \<and>
   get_summary (heap_with (Series scenario_series), scenario_self) =
     (Inr \<lparr>s_mean = Fin 2, s_median = Fin 2, s_std = Fin 1, s_min = Fin 1, s_max = Fin 3,
           s_length = 3\<rparr>,
      (heap_with (Series scenario_series), scenario_self)) \<and>
   series_std scenario_series
     = fsqrt (fdivn (fsum [Fin 1, Fin 1, Fin 0]) (length (items scenario_series) - 1))"
proof -
  have i: "TimeSeries_init (heap_with (Series scenario_series)) 0 ''S'' = Inr scenario_self"
    by (simp add: TimeSeries_init_def validate_input_data_def heap_with_def scenario_self_def)
  have l: "length (items scenario_series) = 3"
    by (simp add: scenario_series_def)
  have g: "get_summary (heap_with (Series scenario_series), scenario_self) =
     (Inr (summarise scenario_series), (heap_with (Series scenario_series), scenario_self))"
    by (simp add: get_summary_def heap_with_def scenario_self_def)
  have s: "series_std scenario_series = Fin 1"
    by (simp only: series_std_def scenario_var fsqrt_one)
  have r: "summarise scenario_series =
     \<lparr>s_mean = Fin 2, s_median = Fin 2, s_std = Fin 1, s_min = Fin 1, s_max = Fin 3,
      s_length = 3\<rparr>"
    by (simp only: summarise_def scenario_mean scenario_median scenario_min scenario_max s l)
  have "fdivn (fsum [Fin 1, Fin 1, Fin 0]) (length (items scenario_series) - 1) = Fin 1"
    by (simp add: l fsum_def pairwise_sum.simps round64_eval)
  then have d: "fsqrt (fdivn (fsum [Fin 1, Fin 1, Fin 0]) (length (items scenario_series) - 1)) = Fin 1"
    by (simp only: fsqrt_one)
  have c: "series_std scenario_series
     = fsqrt (fdivn (fsum [Fin 1, Fin 1, Fin 0]) (length (items scenario_series) - 1))"
    by (simp only: s d)
  show ?thesis
    using i g c unfolding r by blast
qed

section \<open>Bounds on the summary\<close>




lemma tenths_min: "series_min tenths_series = Fin tenth"
  by (simp add: tenths_series_def series_min_def series_eval tenth_def)




section \<open>Inserting a value\<close>













text \<open>
  The claim as it is written, for every TimeSeries, fails on the scenario's Series over a
  read-only array: overwriting the value at \<open>2023-01-02\<close> raises ValueError and the entry
  keeps its value \<open>3.0\<close>.
\<close>

theorem readonly_overwrite_counterexample:
  "TimeSeries_init (heap_with (Series readonly_series)) 0 ''S'' = Inr scenario_self \<and>
   items readonly_series
     = [(ts_2023_01_01, Fin 1), (ts_2023_01_02, Fin 3), (ts_2023_01_03, Fin 2)] \<and>
   add_value ts_2023_01_02 (Fin 7) (heap_with (Series readonly_series), scenario_self)
     = (Inl ValueError, (heap_with (Series readonly_series), scenario_self))"
  by (simp add: TimeSeries_init_def validate_input_data_def add_value_def series_setitem_def
      readonly_series_def scenario_series_def heap_with_def scenario_self_def)

section \<open>What every reachable state stores\<close>















end
